theory Spec2Isabelle
  imports Main "HOL-Library.AList" "HOL-Library.DAList"
begin

section \<open>Connection and message-routing core of backend/server.py\<close>

text \<open>
  The development embeds the WebSocket part of \<^verbatim>\<open>backend/server.py\<close>: the
  \<^verbatim>\<open>ConnectionManager\<close> class, the two WebSocket endpoints
  \<^verbatim>\<open>websocket_dashboard\<close> and \<^verbatim>\<open>websocket_device\<close>, and the
  \<^verbatim>\<open>control_pin\<close> route.

  Conventions of the embedding.
  \<^item> Every function takes the state of the process and of its collaborators and returns
    the new state; a Python exception is the \<open>Inl\<close> side of a sum.
  \<^item> A Python \<^verbatim>\<open>dict\<close> keeps one value per key, in insertion order: the two
    registries are distinct association lists (\<open>DAList\<close>), where \<open>update\<close> replaces in
    place or appends and \<open>delete\<close> is silent on a missing key.
  \<^item> The collection \<^verbatim>\<open>db.devices\<close> is a map from the field \<^verbatim>\<open>id\<close> (a
    server-generated uuid4, never supplied by a client) to the document.
  \<^item> The store either serves every operation or raises on every operation
    (\<open>store_up\<close>); a socket either delivers \<^verbatim>\<open>send_json\<close> or raises for the
    reason recorded for it in \<open>send_fault\<close>.
  \<^item> \<^verbatim>\<open>websocket.accept()\<close> and \<^verbatim>\<open>websocket.close(code)\<close> succeed and are
    recorded in \<open>accepted\<close> and \<open>closed\<close>; \<^verbatim>\<open>datetime.now\<close> reads \<open>now\<close> and
    \<^verbatim>\<open>uuid.uuid4\<close> draws from the counter \<open>next_uuid\<close>.
  \<^item> The frames of a session are a list of events: what each
    \<^verbatim>\<open>await websocket.receive_text()\<close> does next, with the outcome of
    \<^verbatim>\<open>json.loads\<close> on the text. An exhausted list leaves the task blocked in
    \<^verbatim>\<open>receive_text\<close> (\<open>Running\<close>).
  \<^item> Tasks are interleaved at the granularity of the modelled functions; a registry
    changed by another task during the iteration of a broadcast is outside the model.
\<close>

subsection \<open>Data\<close>

type_synonym ws = nat

text \<open>Values produced by \<^verbatim>\<open>json.loads\<close>; Python's \<^verbatim>\<open>None\<close> is \<open>JNull\<close>.
  \<open>JFloat m e\<close> stands for the number \<open>m * 10 ^ e\<close>; the code never computes with numbers.\<close>

datatype json =
    JNull
  | JBool bool
  | JInt int
  | JFloat int int
  | JStr string
  | JArr "json list"
  | JObj "(string \<times> json) list"

datatype exn =
    WebSocketDisconnect
  | RuntimeError
  | JSONDecodeError
  | AttributeError
  | ValidationError
  | StoreError
  | HTTPException nat

text \<open>Why \<^verbatim>\<open>send_json\<close> fails on a socket: the transport reports the peer gone
  (\<^verbatim>\<open>WebSocketDisconnect\<close>) or the socket is already closed
  (\<^verbatim>\<open>RuntimeError\<close>).\<close>

datatype fault = Peer_gone | Already_closed

fun raised_by :: "fault \<Rightarrow> exn" where
  "raised_by Peer_gone = WebSocketDisconnect"
| "raised_by Already_closed = RuntimeError"

text \<open>The fields of a \<^verbatim>\<open>Device\<close> document that the modelled code reads or writes
  (\<^verbatim>\<open>ip_address\<close>, \<^verbatim>\<open>wifi_ssid\<close> and \<^verbatim>\<open>created_at\<close> are never touched).\<close>

record device =
  name :: string
  device_type_id :: string
  auth_token :: string
  user_id :: string
  status :: string
  last_seen :: "nat option"
  firmware_version :: json

text \<open>A \<^verbatim>\<open>SensorData\<close> document as \<^verbatim>\<open>model_dump\<close> produces it.\<close>

record sensor_doc =
  sd_id :: nat
  sd_device_id :: string
  sd_data :: "(string \<times> json) list"
  sd_timestamp :: nat

record pin_control =
  pc_device_id :: string
  pc_pin :: string
  pc_value :: json

record state =
  active_connections :: "(string, ws) alist"
  device_connections :: "(string, ws) alist"
  devices :: "string \<rightharpoonup> device"
  sensor_data :: "sensor_doc list"
  store_up :: bool
  now :: nat
  next_uuid :: nat
  send_fault :: "ws \<rightharpoonup> fault"
  accepted :: "ws list"
  closed :: "(ws \<times> nat) list"
  outbox :: "(ws \<times> json) list"

text \<open>What \<^verbatim>\<open>await websocket.receive_text()\<close> followed by \<^verbatim>\<open>json.loads\<close>
  does: \<open>Close\<close> is \<^verbatim>\<open>WebSocketDisconnect\<close> raised by the receive (clean close or
  transport loss), \<open>Text None\<close> a text that \<^verbatim>\<open>json.loads\<close> rejects, and
  \<open>Text (Some j)\<close> a text that decodes to \<open>j\<close>.\<close>

datatype event = Close | Text "json option"

datatype outcome = Running | Returned | Raised exn

subsection \<open>Python dictionaries of a decoded message\<close>

text \<open>\<^verbatim>\<open>message.get(key)\<close> and \<^verbatim>\<open>message.get(key, default)\<close>.\<close>

definition py_get :: "(string \<times> json) list \<Rightarrow> string \<Rightarrow> json" where
  "py_get m k = (case map_of m k of None \<Rightarrow> JNull | Some v \<Rightarrow> v)"

definition py_get_default :: "(string \<times> json) list \<Rightarrow> string \<Rightarrow> json \<Rightarrow> json" where
  "py_get_default m k dflt = (case map_of m k of None \<Rightarrow> dflt | Some v \<Rightarrow> v)"

subsection \<open>ConnectionManager\<close>

definition connect :: "state \<Rightarrow> ws \<Rightarrow> string \<Rightarrow> string \<Rightarrow> state" where
  "connect s websocket client_id client_type =
     (let s1 = s\<lparr>accepted := accepted s @ [websocket]\<rparr>
      in if client_type = ''device''
         then s1\<lparr>device_connections := DAList.update client_id websocket (device_connections s1)\<rparr>
         else s1\<lparr>active_connections := DAList.update client_id websocket (active_connections s1)\<rparr>)"

definition disconnect :: "state \<Rightarrow> string \<Rightarrow> string \<Rightarrow> state" where
  "disconnect s client_id client_type =
     (if client_type = ''device''
      then (if DAList.lookup (device_connections s) client_id \<noteq> None
            then s\<lparr>device_connections := DAList.delete client_id (device_connections s)\<rparr>
            else s)
      else (if DAList.lookup (active_connections s) client_id \<noteq> None
            then s\<lparr>active_connections := DAList.delete client_id (active_connections s)\<rparr>
            else s))"

definition send_json :: "state \<Rightarrow> ws \<Rightarrow> json \<Rightarrow> state \<times> (exn + unit)" where
  "send_json s websocket message =
     (case send_fault s websocket of
        Some f \<Rightarrow> (s, Inl (raised_by f))
      | None \<Rightarrow> (s\<lparr>outbox := outbox s @ [(websocket, message)]\<rparr>, Inr ()))"

definition send_to_device :: "state \<Rightarrow> string \<Rightarrow> json \<Rightarrow> state \<times> (exn + unit)" where
  "send_to_device s device_id message =
     (case DAList.lookup (device_connections s) device_id of
        None \<Rightarrow> (s, Inr ())
      | Some websocket \<Rightarrow> send_json s websocket message)"

text \<open>The \<^verbatim>\<open>for\<close> loop of \<^verbatim>\<open>broadcast_to_users\<close> over the values of the
  dictionary: an exception of one \<^verbatim>\<open>send_json\<close> leaves the loop.\<close>

fun send_each :: "state \<Rightarrow> ws list \<Rightarrow> json \<Rightarrow> state \<times> (exn + unit)" where
  "send_each s [] message = (s, Inr ())"
| "send_each s (connection # rest) message =
     (case send_json s connection message of
        (s1, Inl e) \<Rightarrow> (s1, Inl e)
      | (s1, Inr _) \<Rightarrow> send_each s1 rest message)"

definition broadcast_to_users :: "state \<Rightarrow> json \<Rightarrow> state \<times> (exn + unit)" where
  "broadcast_to_users s message =
     send_each s (map snd (DAList.impl_of (active_connections s))) message"

subsection \<open>The store\<close>

text \<open>\<^verbatim>\<open>db.devices.find_one({'id': .., 'auth_token': ..})\<close> and
  \<^verbatim>\<open>db.devices.find_one({'id': .., 'user_id': ..})\<close>.\<close>

definition find_one_token :: "state \<Rightarrow> string \<Rightarrow> string \<Rightarrow> exn + device option" where
  "find_one_token s device_id token =
     (if \<not> store_up s then Inl StoreError
      else Inr (case devices s device_id of
                  None \<Rightarrow> None
                | Some r \<Rightarrow> if auth_token r = token then Some r else None))"

definition find_one_owner :: "state \<Rightarrow> string \<Rightarrow> string \<Rightarrow> exn + device option" where
  "find_one_owner s device_id owner =
     (if \<not> store_up s then Inl StoreError
      else Inr (case devices s device_id of
                  None \<Rightarrow> None
                | Some r \<Rightarrow> if user_id r = owner then Some r else None))"

text \<open>\<^verbatim>\<open>db.devices.update_one({'id': ..}, {'$set': ..})\<close>: silent when no document
  matches.\<close>

definition update_one :: "state \<Rightarrow> string \<Rightarrow> (device \<Rightarrow> device) \<Rightarrow> state \<times> (exn + unit)" where
  "update_one s device_id set_fields =
     (if \<not> store_up s then (s, Inl StoreError)
      else (case devices s device_id of
              None \<Rightarrow> (s, Inr ())
            | Some r \<Rightarrow> (s\<lparr>devices := (devices s)(device_id \<mapsto> set_fields r)\<rparr>, Inr ())))"

definition insert_one :: "state \<Rightarrow> sensor_doc \<Rightarrow> state \<times> (exn + unit)" where
  "insert_one s doc =
     (if \<not> store_up s then (s, Inl StoreError)
      else (s\<lparr>sensor_data := sensor_data s @ [doc]\<rparr>, Inr ()))"

subsection \<open>Messages sent to dashboards and devices\<close>

definition device_status_msg :: "string \<Rightarrow> string \<Rightarrow> json" where
  "device_status_msg device_id st =
     JObj [(''type'', JStr ''device_status''), (''device_id'', JStr device_id),
           (''status'', JStr st)]"

definition sensor_data_msg :: "string \<Rightarrow> json \<Rightarrow> json" where
  "sensor_data_msg device_id payload =
     JObj [(''type'', JStr ''sensor_data''), (''device_id'', JStr device_id),
           (''data'', payload)]"

definition firmware_status_msg :: "string \<Rightarrow> json \<Rightarrow> json \<Rightarrow> json" where
  "firmware_status_msg device_id st version =
     JObj [(''type'', JStr ''firmware_update_status''), (''device_id'', JStr device_id),
           (''status'', st), (''version'', version)]"

definition pin_control_msg :: "pin_control \<Rightarrow> json" where
  "pin_control_msg control =
     JObj [(''type'', JStr ''pin_control''), (''pin'', JStr (pc_pin control)),
           (''value'', pc_value control)]"

subsection \<open>websocket\_device\<close>

text \<open>The body of the \<^verbatim>\<open>sensor_data\<close> branch. \<^verbatim>\<open>SensorData(..)\<close> fills
  \<^verbatim>\<open>id\<close> from its default factory and validates \<^verbatim>\<open>data: Dict[str, Any]\<close>: a
  payload that is not an object raises before anything is stored, a uuid having been
  drawn already.\<close>

definition handle_sensor_data :: "state \<Rightarrow> string \<Rightarrow> (string \<times> json) list \<Rightarrow> state \<times> (exn + unit)" where
  "handle_sensor_data s device_id message =
     (let s1 = s\<lparr>next_uuid := Suc (next_uuid s)\<rparr>
      in case py_get_default message ''data'' (JObj []) of
           JObj payload \<Rightarrow>
             (let doc = \<lparr>sd_id = next_uuid s, sd_device_id = device_id,
                         sd_data = payload, sd_timestamp = now s\<rparr>
              in case insert_one s1 doc of
                   (s2, Inl e) \<Rightarrow> (s2, Inl e)
                 | (s2, Inr _) \<Rightarrow>
                     broadcast_to_users s2 (sensor_data_msg device_id (JObj payload)))
         | _ \<Rightarrow> (s1, Inl ValidationError))"

definition handle_firmware_status :: "state \<Rightarrow> string \<Rightarrow> (string \<times> json) list \<Rightarrow> state \<times> (exn + unit)" where
  "handle_firmware_status s device_id message =
     (case (if py_get message ''status'' = JStr ''success''
            then update_one s device_id (\<lambda>r. r\<lparr>firmware_version := py_get message ''version''\<rparr>)
            else (s, Inr ())) of
        (s1, Inl e) \<Rightarrow> (s1, Inl e)
      | (s1, Inr _) \<Rightarrow>
          broadcast_to_users s1
            (firmware_status_msg device_id (py_get message ''status'') (py_get message ''version'')))"

text \<open>The dispatch on \<^verbatim>\<open>message.get('type')\<close>; a decoded value that is not a
  dictionary has no \<^verbatim>\<open>get\<close>.\<close>

definition handle_message :: "state \<Rightarrow> string \<Rightarrow> json \<Rightarrow> state \<times> (exn + unit)" where
  "handle_message s device_id message =
     (case message of
        JObj m \<Rightarrow>
          if py_get m ''type'' = JStr ''sensor_data'' then handle_sensor_data s device_id m
          else if py_get m ''type'' = JStr ''firmware_update_status''
               then handle_firmware_status s device_id m
          else (s, Inr ())
      | _ \<Rightarrow> (s, Inl AttributeError))"

text \<open>One turn of the \<^verbatim>\<open>while True\<close> loop.\<close>

definition loop_body :: "state \<Rightarrow> string \<Rightarrow> event \<Rightarrow> state \<times> (exn + unit)" where
  "loop_body s device_id ev =
     (case ev of
        Close \<Rightarrow> (s, Inl WebSocketDisconnect)
      | Text None \<Rightarrow> (s, Inl JSONDecodeError)
      | Text (Some message) \<Rightarrow> handle_message s device_id message)"

text \<open>The handler \<^verbatim>\<open>except WebSocketDisconnect\<close>.\<close>

definition on_disconnect :: "state \<Rightarrow> string \<Rightarrow> state \<times> outcome" where
  "on_disconnect s device_id =
     (let s1 = disconnect s device_id ''device''
      in case update_one s1 device_id (\<lambda>r. r\<lparr>status := ''offline'', last_seen := Some (now s1)\<rparr>) of
           (s2, Inl e) \<Rightarrow> (s2, Raised e)
         | (s2, Inr _) \<Rightarrow>
             (case broadcast_to_users s2 (device_status_msg device_id ''offline'') of
                (s3, Inl e) \<Rightarrow> (s3, Raised e)
              | (s3, Inr _) \<Rightarrow> (s3, Returned)))"

text \<open>The \<^verbatim>\<open>try\<close> statement around the loop: only \<^verbatim>\<open>WebSocketDisconnect\<close> is
  caught, whatever raised it inside the loop.\<close>

fun message_loop :: "state \<Rightarrow> string \<Rightarrow> event list \<Rightarrow> state \<times> outcome" where
  "message_loop s device_id [] = (s, Running)"
| "message_loop s device_id (ev # evs) =
     (case loop_body s device_id ev of
        (s1, Inr _) \<Rightarrow> message_loop s1 device_id evs
      | (s1, Inl e) \<Rightarrow>
          if e = WebSocketDisconnect then on_disconnect s1 device_id else (s1, Raised e))"

definition websocket_device :: "state \<Rightarrow> ws \<Rightarrow> string \<Rightarrow> string \<Rightarrow> event list \<Rightarrow> state \<times> outcome" where
  "websocket_device s websocket device_id token evs =
     (case find_one_token s device_id token of
        Inl e \<Rightarrow> (s, Raised e)
      | Inr None \<Rightarrow> (s\<lparr>closed := closed s @ [(websocket, 4001)]\<rparr>, Returned)
      | Inr (Some _) \<Rightarrow>
          (let s1 = connect s websocket device_id ''device''
           in case update_one s1 device_id (\<lambda>r. r\<lparr>status := ''online'', last_seen := Some (now s1)\<rparr>) of
                (s2, Inl e) \<Rightarrow> (s2, Raised e)
              | (s2, Inr _) \<Rightarrow>
                  (case broadcast_to_users s2 (device_status_msg device_id ''online'') of
                     (s3, Inl e) \<Rightarrow> (s3, Raised e)
                   | (s3, Inr _) \<Rightarrow> message_loop s3 device_id evs)))"

subsection \<open>websocket\_dashboard\<close>

text \<open>The received text is not decoded and not used.\<close>

fun dashboard_loop :: "state \<Rightarrow> string \<Rightarrow> event list \<Rightarrow> state \<times> outcome" where
  "dashboard_loop s uid [] = (s, Running)"
| "dashboard_loop s uid (Close # evs) = (disconnect s uid ''user'', Returned)"
| "dashboard_loop s uid (Text _ # evs) = dashboard_loop s uid evs"

definition websocket_dashboard :: "state \<Rightarrow> ws \<Rightarrow> string \<Rightarrow> event list \<Rightarrow> state \<times> outcome" where
  "websocket_dashboard s websocket uid evs =
     dashboard_loop (connect s websocket uid ''user'') uid evs"

subsection \<open>control\_pin\<close>

text \<open>The caller is the user that \<^verbatim>\<open>get_current_user\<close> has authenticated.\<close>

definition control_pin :: "state \<Rightarrow> string \<Rightarrow> pin_control \<Rightarrow> state \<times> (exn + json)" where
  "control_pin s current_user control =
     (case find_one_owner s (pc_device_id control) current_user of
        Inl e \<Rightarrow> (s, Inl e)
      | Inr None \<Rightarrow> (s, Inl (HTTPException 404))
      | Inr (Some _) \<Rightarrow>
          (case send_to_device s (pc_device_id control) (pin_control_msg control) of
             (s1, Inl e) \<Rightarrow> (s1, Inl e)
           | (s1, Inr _) \<Rightarrow>
               (s1, Inr (JObj [(''message'', JStr ''Command sent''),
                               (''pin'', JStr (pc_pin control)),
                               (''value'', pc_value control)]))))"

subsection \<open>Registry entries and liveness records\<close>


definition online :: "state \<Rightarrow> string \<Rightarrow> bool" where
  "online s d = (case devices s d of None \<Rightarrow> False | Some r \<Rightarrow> status r = ''online'')"


definition entries_for :: "string \<Rightarrow> (string, ws) alist \<Rightarrow> nat" where
  "entries_for d reg = length (filter (\<lambda>kv. fst kv = d) (DAList.impl_of reg))"

text \<open>The sockets of a list that a broadcast reaches: those before the first faulty one.\<close>

definition reached :: "state \<Rightarrow> ws list \<Rightarrow> ws list" where
  "reached s conns = takeWhile (\<lambda>w. send_fault s w = None) conns"

subsection \<open>A small installation\<close>

text \<open>One device \<open>d1\<close> owned by \<open>alice\<close>, whose dashboard is connected on socket 3.\<close>

definition boiler :: device where
  "boiler = \<lparr>name = ''boiler'', device_type_id = ''esp32'', auth_token = ''tok1'',
             user_id = ''alice'', status = ''offline'', last_seen = None,
             firmware_version = JStr ''1.0.0''\<rparr>"

definition demo :: state where
  "demo = \<lparr>active_connections = DAList.update ''alice'' 3 DAList.empty,
           device_connections = DAList.empty,
           devices = [''d1'' \<mapsto> boiler],
           sensor_data = [],
           store_up = True,
           now = 100,
           next_uuid = 0,
           send_fault = Map.empty,
           accepted = [],
           closed = [],
           outbox = []\<rparr>"

text \<open>The frame \<^verbatim>\<open>{"type": "sensor_data", "data": {"temp": 21.5}}\<close>.\<close>

definition temp_frame :: json where
  "temp_frame = JObj [(''type'', JStr ''sensor_data''),
                      (''data'', JObj [(''temp'', JFloat 215 (- 1))])]"

text \<open>The frame \<^verbatim>\<open>{"type": "firmware_update_status", "status": "success",
  "version": "1.1.0"}\<close>.\<close>

definition fw_frame :: json where
  "fw_frame = JObj [(''type'', JStr ''firmware_update_status''),
                    (''status'', JStr ''success''), (''version'', JStr ''1.1.0'')]"

text \<open>The same report with \<^verbatim>\<open>"status": "failed"\<close>.\<close>

definition fw_failed_frame :: json where
  "fw_failed_frame = JObj [(''type'', JStr ''firmware_update_status''),
                           (''status'', JStr ''failed''), (''version'', JStr ''1.1.0'')]"

text \<open>A command of the dashboard for pin D1 of the device.\<close>

definition pin_d1_high :: pin_control where
  "pin_d1_high = \<lparr>pc_device_id = ''d1'', pc_pin = ''D1'', pc_value = JInt 1\<rparr>"

text \<open>The device is connected on socket 7 and its task waits for a frame.\<close>

definition connected :: state where
  "connected = fst (websocket_device demo 7 ''d1'' ''tok1'' [])"


text \<open>The device reconnects on socket 8 while the task of socket 7 has not yet seen its
  connection close; then the task of socket 7 sees the close.\<close>

definition reconnected :: state where
  "reconnected = fst (websocket_device connected 8 ''d1'' ''tok1'' [])"

definition stale_cleanup :: state where
  "stale_cleanup = fst (message_loop reconnected ''d1'' [Close])"

text \<open>The store goes down while the device is connected.\<close>

definition store_down :: state where
  "store_down = connected\<lparr>store_up := False\<rparr>"

section \<open>Properties\<close>

subsection \<open>Evaluation of the registries\<close>

lemmas dalist_eval =
  DAList.update.rep_eq DAList.empty.rep_eq DAList.delete.rep_eq DAList.lookup.rep_eq

subsection \<open>Broadcast\<close>

lemma send_each_Cons_ok:
  "send_fault s w = None \<Longrightarrow>
   send_each s (w # ws) m = send_each (s\<lparr>outbox := outbox s @ [(w, m)]\<rparr>) ws m"
  by (simp add: send_json_def)

lemma send_each_Cons_fault:
  "send_fault s w = Some f \<Longrightarrow> send_each s (w # ws) m = (s, Inl (raised_by f))"
  by (simp add: send_json_def)

lemma send_each_fst:
  "fst (send_each s ws m) = s\<lparr>outbox := outbox s @ map (\<lambda>w. (w, m)) (reached s ws)\<rparr>"
proof (induction ws arbitrary: s)
  case Nil
  show ?case by (simp add: reached_def)
next
  case (Cons w ws)
  show ?case
  proof (cases "send_fault s w")
    case None
    then show ?thesis
      using Cons.IH [of "s\<lparr>outbox := outbox s @ [(w, m)]\<rparr>"]
      by (simp add: send_each_Cons_ok reached_def del: send_each.simps)
  next
    case (Some f)
    then show ?thesis
      by (simp add: send_each_Cons_fault reached_def del: send_each.simps)
  qed
qed



lemma broadcast_fst:
  "fst (broadcast_to_users s m) =
     s\<lparr>outbox := outbox s @
         map (\<lambda>w. (w, m)) (reached s (map snd (DAList.impl_of (active_connections s))))\<rparr>"
  by (simp add: broadcast_to_users_def send_each_fst)




subsection \<open>Device admission\<close>

text \<open>
  Claim C5: when the store answers and the claimed device id has no document, or its
  document carries another token, the connection attempt is closed with code 4001 (which
  is not 1000) and nothing else happens: the socket is not accepted, neither registry
  changes, no document changes, and nothing is sent to any dashboard.
\<close>

theorem C5_rejected_before_any_mutation:
  "store_up s \<Longrightarrow> \<forall>r. devices s d = Some r \<longrightarrow> auth_token r \<noteq> tok \<Longrightarrow>
   websocket_device s w d tok evs = (s\<lparr>closed := closed s @ [(w, 4001)]\<rparr>, Returned)
   \<and> (4001 :: nat) \<noteq> 1000
   \<and> device_connections (fst (websocket_device s w d tok evs)) = device_connections s
   \<and> active_connections (fst (websocket_device s w d tok evs)) = active_connections s
   \<and> accepted (fst (websocket_device s w d tok evs)) = accepted s
   \<and> devices (fst (websocket_device s w d tok evs)) = devices s
   \<and> sensor_data (fst (websocket_device s w d tok evs)) = sensor_data s
   \<and> outbox (fst (websocket_device s w d tok evs)) = outbox s"
  by (cases "devices s d") (simp_all add: websocket_device_def find_one_token_def)

theorem C5_rejected_witness:
  "store_up demo \<and> devices demo ''d9'' = None
   \<and> websocket_device demo 7 ''d9'' ''tok1'' [Text (Some temp_frame)]
       = (demo\<lparr>closed := [(7, 4001)]\<rparr>, Returned)
   \<and> map_option auth_token (devices demo ''d1'') = Some ''tok1''
   \<and> websocket_device demo 7 ''d1'' ''Tok1'' [Text (Some temp_frame)]
       = (demo\<lparr>closed := [(7, 4001)]\<rparr>, Returned)"
proof -
  have a: "store_up demo" by (simp add: demo_def)
  have b: "\<forall>r. devices demo ''d9'' = Some r \<longrightarrow> auth_token r \<noteq> ''tok1''"
    by (simp add: demo_def)
  have c: "\<forall>r. devices demo ''d1'' = Some r \<longrightarrow> auth_token r \<noteq> ''Tok1''"
    by (simp add: demo_def boiler_def)
  have d: "closed demo = []" by (simp add: demo_def)
  show ?thesis
    using C5_rejected_before_any_mutation [OF a b, of 7 "[Text (Some temp_frame)]"]
      C5_rejected_before_any_mutation [OF a c, of 7 "[Text (Some temp_frame)]"] a d
    by (simp add: demo_def boiler_def)
qed

subsection \<open>Commands to a device\<close>

lemma send_json_not_http: "snd (send_json s w m) \<noteq> Inl (HTTPException n)"
  by (cases "send_fault s w"; cases "the (send_fault s w)") (auto simp: send_json_def)

lemma send_to_device_not_http: "snd (send_to_device s d m) \<noteq> Inl (HTTPException n)"
  by (simp add: send_to_device_def send_json_not_http split: option.splits)

text \<open>
  Claim C9: a unicast to a device id without a registered channel changes nothing and
  returns normally. A \<^verbatim>\<open>pin_control\<close> request for a device that the caller owns and
  that has no channel returns the ordinary answer, with the state (so also every outbox)
  unchanged. The answer 404 comes only when no document with that id belongs to the
  caller, and then it does come whenever the store answers.
\<close>

theorem C9_absent_channel_is_not_an_error:
  "(DAList.lookup (device_connections s) d = None \<longrightarrow> send_to_device s d m = (s, Inr ()))
   \<and> (store_up s \<and> devices s (pc_device_id c) = Some r \<and> user_id r = u
        \<and> DAList.lookup (device_connections s) (pc_device_id c) = None \<longrightarrow>
      control_pin s u c =
        (s, Inr (JObj [(''message'', JStr ''Command sent''), (''pin'', JStr (pc_pin c)),
                       (''value'', pc_value c)])))
   \<and> (snd (control_pin s u c) = Inl (HTTPException 404) \<longrightarrow>
        (\<forall>r. devices s (pc_device_id c) = Some r \<longrightarrow> user_id r \<noteq> u))
   \<and> (store_up s \<and> (\<forall>r. devices s (pc_device_id c) = Some r \<longrightarrow> user_id r \<noteq> u) \<longrightarrow>
        control_pin s u c = (s, Inl (HTTPException 404)))"
proof (intro conjI impI)
  assume "DAList.lookup (device_connections s) d = None"
  then show "send_to_device s d m = (s, Inr ())" by (simp add: send_to_device_def)
next
  assume "store_up s \<and> devices s (pc_device_id c) = Some r \<and> user_id r = u
        \<and> DAList.lookup (device_connections s) (pc_device_id c) = None"
  then show "control_pin s u c =
        (s, Inr (JObj [(''message'', JStr ''Command sent''), (''pin'', JStr (pc_pin c)),
                       (''value'', pc_value c)]))"
    by (simp add: control_pin_def find_one_owner_def send_to_device_def)
next
  assume h: "snd (control_pin s u c) = Inl (HTTPException 404)"
  show "\<forall>r. devices s (pc_device_id c) = Some r \<longrightarrow> user_id r \<noteq> u"
  proof (intro allI impI notI)
    fix r assume r: "devices s (pc_device_id c) = Some r" "user_id r = u"
    show False
    proof (cases "store_up s")
      case False
      with h show False by (simp add: control_pin_def find_one_owner_def)
    next
      case True
      obtain s1 res where sd: "send_to_device s (pc_device_id c) (pin_control_msg c) = (s1, res)"
        by (cases "send_to_device s (pc_device_id c) (pin_control_msg c)")
      with send_to_device_not_http [of s "pc_device_id c" "pin_control_msg c" 404]
      have "res \<noteq> Inl (HTTPException 404)" by simp
      with h True r sd show False
        by (cases res) (simp_all add: control_pin_def find_one_owner_def)
    qed
  qed
next
  assume "store_up s \<and> (\<forall>r. devices s (pc_device_id c) = Some r \<longrightarrow> user_id r \<noteq> u)"
  then show "control_pin s u c = (s, Inl (HTTPException 404))"
    by (cases "devices s (pc_device_id c)") (simp_all add: control_pin_def find_one_owner_def)
qed

theorem C9_absent_channel_witness:
  "DAList.lookup (device_connections demo) ''d1'' = None
   \<and> send_to_device demo ''d1'' (pin_control_msg pin_d1_high) = (demo, Inr ())
   \<and> store_up demo \<and> map_option user_id (devices demo ''d1'') = Some ''alice''
   \<and> control_pin demo ''alice'' pin_d1_high =
       (demo, Inr (JObj [(''message'', JStr ''Command sent''), (''pin'', JStr ''D1''),
                         (''value'', JInt 1)]))
   \<and> control_pin demo ''mallory'' pin_d1_high = (demo, Inl (HTTPException 404))
   \<and> outbox (fst (control_pin demo ''alice'' pin_d1_high)) = []"
proof -
  have a: "DAList.lookup (device_connections demo) ''d1'' = None"
    by (simp add: demo_def)
  have b: "store_up demo \<and> devices demo (pc_device_id pin_d1_high) = Some boiler
      \<and> user_id boiler = ''alice''
      \<and> DAList.lookup (device_connections demo) (pc_device_id pin_d1_high) = None"
    by (simp add: demo_def boiler_def pin_d1_high_def)
  have c: "store_up demo
      \<and> (\<forall>r. devices demo (pc_device_id pin_d1_high) = Some r \<longrightarrow> user_id r \<noteq> ''mallory'')"
    by (simp add: demo_def boiler_def pin_d1_high_def)
  note t = C9_absent_channel_is_not_an_error
  from a t [where s = demo and d = "''d1''" and m = "pin_control_msg pin_d1_high"]
  have 1: "send_to_device demo ''d1'' (pin_control_msg pin_d1_high) = (demo, Inr ())" by blast
  from b t [where s = demo and c = pin_d1_high and r = boiler and u = "''alice''"]
  have 2: "control_pin demo ''alice'' pin_d1_high =
       (demo, Inr (JObj [(''message'', JStr ''Command sent''), (''pin'', JStr ''D1''),
                         (''value'', JInt 1)]))"
    by (simp add: pin_d1_high_def)
  from c t [where s = demo and c = pin_d1_high and u = "''mallory''"]
  have 3: "control_pin demo ''mallory'' pin_d1_high = (demo, Inl (HTTPException 404))" by blast
  have 4: "outbox demo = []" "map_option user_id (devices demo ''d1'') = Some ''alice''"
    by (simp_all add: demo_def boiler_def)
  from a b 1 2 3 4 show ?thesis by simp
qed

subsection \<open>Dashboard connections\<close>

lemma disconnect_user_fields:
  "devices (disconnect s uid ''user'') = devices s"
  "sensor_data (disconnect s uid ''user'') = sensor_data s"
  "outbox (disconnect s uid ''user'') = outbox s"
  "closed (disconnect s uid ''user'') = closed s"
  "device_connections (disconnect s uid ''user'') = device_connections s"
  by (simp_all add: disconnect_def)

lemma dashboard_loop_fields:
  "devices (fst (dashboard_loop s uid evs)) = devices s
   \<and> sensor_data (fst (dashboard_loop s uid evs)) = sensor_data s
   \<and> outbox (fst (dashboard_loop s uid evs)) = outbox s
   \<and> closed (fst (dashboard_loop s uid evs)) = closed s
   \<and> device_connections (fst (dashboard_loop s uid evs)) = device_connections s"
  by (induction s uid evs rule: dashboard_loop.induct) (simp_all add: disconnect_user_fields)

text \<open>
  Claim C10: for every \<open>uid\<close> the dashboard endpoint accepts the socket and registers it
  under \<open>uid\<close> in the dashboard partition; the result depends on no token or stored
  record. Whatever the session then receives, up to and including its disconnect, no
  document or sensor reading changes, nothing is sent to any socket, no socket is closed
  by the server, and the device partition is untouched.
\<close>

theorem C10_dashboard_admitted_without_check:
  "websocket_dashboard s w uid [] =
     (s\<lparr>accepted := accepted s @ [w],
        active_connections := DAList.update uid w (active_connections s)\<rparr>, Running)
   \<and> DAList.lookup (active_connections (fst (websocket_dashboard s w uid []))) uid = Some w
   \<and> devices (fst (websocket_dashboard s w uid evs)) = devices s
   \<and> sensor_data (fst (websocket_dashboard s w uid evs)) = sensor_data s
   \<and> outbox (fst (websocket_dashboard s w uid evs)) = outbox s
   \<and> closed (fst (websocket_dashboard s w uid evs)) = closed s
   \<and> device_connections (fst (websocket_dashboard s w uid evs)) = device_connections s"
  using dashboard_loop_fields [of "connect s w uid ''user''" uid evs]
  by (simp add: websocket_dashboard_def connect_def)

theorem C10_dashboard_witness:
  "websocket_dashboard demo 9 ''anyone at all'' [] =
     (demo\<lparr>accepted := [9],
           active_connections := DAList.update ''anyone at all'' 9 (active_connections demo)\<rparr>,
      Running)
   \<and> snd (websocket_dashboard demo 9 ''anyone at all'' [Text None, Close]) = Returned
   \<and> DAList.lookup
        (active_connections (fst (websocket_dashboard demo 9 ''anyone at all'' [Text None, Close])))
        ''anyone at all'' = None
   \<and> outbox (fst (websocket_dashboard demo 9 ''anyone at all'' [Text None, Close])) = []
   \<and> devices (fst (websocket_dashboard demo 9 ''anyone at all'' [Text None, Close]))
       = devices demo"
  using C10_dashboard_admitted_without_check [of demo 9 "''anyone at all''" "[Text None, Close]"]
  by (simp add: demo_def websocket_dashboard_def connect_def disconnect_def dalist_eval)

subsection \<open>The states of the small installation\<close>

lemmas code_eval = websocket_device_def find_one_token_def connect_def disconnect_def
  update_one_def insert_one_def broadcast_to_users_def send_json_def
  loop_body_def handle_message_def handle_sensor_data_def handle_firmware_status_def
  on_disconnect_def py_get_def py_get_default_def device_status_msg_def sensor_data_msg_def
  firmware_status_msg_def

lemma connected_eq:
  "connected = demo\<lparr>accepted := [7],
      device_connections := DAList.update ''d1'' 7 DAList.empty,
      devices := [''d1'' \<mapsto> boiler\<lparr>status := ''online'', last_seen := Some 100\<rparr>],
      outbox := [(3, device_status_msg ''d1'' ''online'')]\<rparr>"
  by (simp add: connected_def demo_def boiler_def code_eval dalist_eval)

lemma reconnected_eq:
  "reconnected = demo\<lparr>accepted := [7, 8],
      device_connections := DAList.update ''d1'' 8 DAList.empty,
      devices := [''d1'' \<mapsto> boiler\<lparr>status := ''online'', last_seen := Some 100\<rparr>],
      outbox := [(3, device_status_msg ''d1'' ''online''), (3, device_status_msg ''d1'' ''online'')]\<rparr>"
  by (simp add: reconnected_def connected_eq demo_def boiler_def code_eval dalist_eval DAList.alist_eq_iff)

subsection \<open>The message loop of a device\<close>

text \<open>
  Claim C3, as stated, fails: after a frame that \<^verbatim>\<open>json.loads\<close> rejects, the task
  of the connection has ended with the decoding error, and the well-formed
  \<^verbatim>\<open>sensor_data\<close> frame that follows is never handled, whereas the same frame alone
  is stored and leaves the loop running.
\<close>

theorem C3_undecodable_frame_counterexample:
  "snd (message_loop connected ''d1'' [Text None, Text (Some temp_frame)]) = Raised JSONDecodeError
   \<and> sensor_data (fst (message_loop connected ''d1'' [Text None, Text (Some temp_frame)])) = []
   \<and> snd (message_loop connected ''d1'' [Text (Some temp_frame)]) = Running
   \<and> length (sensor_data (fst (message_loop connected ''d1'' [Text (Some temp_frame)]))) = 1"
  by (simp add: connected_eq demo_def boiler_def temp_frame_def code_eval dalist_eval)

text \<open>
  Claim C3, amended: a frame that decodes to a JSON object without the key
  \<^verbatim>\<open>type\<close> is dropped without any effect and the loop goes on with the next frame.
  A frame that does not decode, or that decodes to a value that is not an object, changes
  nothing and raises out of the message loop: no later frame of the connection is handled.
\<close>

theorem C3_undecodable_frame_ends_loop:
  "message_loop s d (Text None # evs) = (s, Raised JSONDecodeError)
   \<and> ((\<forall>m. j \<noteq> JObj m) \<longrightarrow> message_loop s d (Text (Some j) # evs) = (s, Raised AttributeError))
   \<and> (map_of m ''type'' = None \<longrightarrow>
        message_loop s d (Text (Some (JObj m)) # evs) = message_loop s d evs)"
  by (cases j) (simp_all add: loop_body_def handle_message_def py_get_def)

theorem C3_undecodable_frame_witness:
  "message_loop connected ''d1'' [Text None, Text (Some temp_frame)] = (connected, Raised JSONDecodeError)
   \<and> message_loop connected ''d1'' [Text (Some (JArr [JInt 1])), Text (Some temp_frame)]
       = (connected, Raised AttributeError)
   \<and> map_of [(''data'', JObj [])] ''type'' = None
   \<and> message_loop connected ''d1'' [Text (Some (JObj [(''data'', JObj [])]))] = (connected, Running)"
proof -
  have a: "\<forall>m. JArr [JInt 1] \<noteq> JObj m" by simp
  have b: "map_of [(''data'', JObj [])] ''type'' = None" by simp
  note t = C3_undecodable_frame_ends_loop [where s = connected and d = "''d1''" and j = "JArr [JInt 1]"
      and m = "[(''data'', JObj [])]"]
  from t [of "[Text (Some temp_frame)]"] a
  have 1: "message_loop connected ''d1'' [Text None, Text (Some temp_frame)] = (connected, Raised JSONDecodeError)"
    and 2: "message_loop connected ''d1'' [Text (Some (JArr [JInt 1])), Text (Some temp_frame)]
       = (connected, Raised AttributeError)" by blast+
  from t [of "[]"] b
  have 3: "message_loop connected ''d1'' [Text (Some (JObj [(''data'', JObj [])]))] = (connected, Running)"
    by simp
  from 1 2 3 b show ?thesis by simp
qed

text \<open>
  Claim C7, as stated, fails in its last clause: with a healthy dashboard registered
  and the store down, a \<^verbatim>\<open>sensor_data\<close> frame ends the loop with the store's error
  and nothing is sent to the dashboard.
\<close>

theorem C7_store_failure_counterexample:
  "DAList.lookup (active_connections store_down) ''alice'' = Some 3
   \<and> send_fault store_down 3 = None
   \<and> snd (message_loop store_down ''d1'' [Text (Some temp_frame)]) = Raised StoreError
   \<and> outbox (fst (message_loop store_down ''d1'' [Text (Some temp_frame)])) = outbox store_down
   \<and> sensor_data (fst (message_loop store_down ''d1'' [Text (Some temp_frame)])) = []"
  by (simp add: store_down_def connected_eq demo_def boiler_def temp_frame_def code_eval dalist_eval)

text \<open>
  Claim C7, amended: for a frame of type \<^verbatim>\<open>sensor_data\<close> whose \<^verbatim>\<open>data\<close> is a
  JSON object (an absent \<^verbatim>\<open>data\<close> counts as the empty object), when the store
  accepts the insert a reading with the device id, the payload and the server's time is
  appended to the stored readings and the same payload is then broadcast to the
  dashboards as the event \<^verbatim>\<open>{type: sensor_data, device_id, data}\<close>, reaching every
  dashboard socket up to the first one whose send fails; when the insert fails, nothing is
  stored, no broadcast is attempted and the failure leaves the message loop.
\<close>

theorem C7_sensor_data_persist_then_broadcast:
  "py_get m ''type'' = JStr ''sensor_data'' \<Longrightarrow> py_get_default m ''data'' (JObj []) = JObj p \<Longrightarrow>
   (store_up s \<longrightarrow>
      handle_message s d (JObj m) =
        broadcast_to_users
          (s\<lparr>next_uuid := Suc (next_uuid s),
             sensor_data := sensor_data s @
               [\<lparr>sd_id = next_uuid s, sd_device_id = d, sd_data = p, sd_timestamp = now s\<rparr>]\<rparr>)
          (JObj [(''type'', JStr ''sensor_data''), (''device_id'', JStr d), (''data'', JObj p)])
      \<and> sensor_data (fst (handle_message s d (JObj m))) =
          sensor_data s @
            [\<lparr>sd_id = next_uuid s, sd_device_id = d, sd_data = p, sd_timestamp = now s\<rparr>]
      \<and> outbox (fst (handle_message s d (JObj m))) =
          outbox s @
            map (\<lambda>w. (w, JObj [(''type'', JStr ''sensor_data''), (''device_id'', JStr d),
                              (''data'', JObj p)]))
              (takeWhile (\<lambda>w. send_fault s w = None)
                 (map snd (DAList.impl_of (active_connections s)))))
   \<and> (\<not> store_up s \<longrightarrow>
        snd (handle_message s d (JObj m)) = Inl StoreError
        \<and> outbox (fst (handle_message s d (JObj m))) = outbox s
        \<and> sensor_data (fst (handle_message s d (JObj m))) = sensor_data s
        \<and> snd (message_loop s d (Text (Some (JObj m)) # evs)) = Raised StoreError)"
  by (simp add: loop_body_def handle_message_def handle_sensor_data_def insert_one_def Let_def
        sensor_data_msg_def broadcast_fst reached_def)

theorem C7_sensor_data_witness:
  "py_get [(''type'', JStr ''sensor_data''), (''data'', JObj [(''temp'', JFloat 215 (- 1))])] ''type''
     = JStr ''sensor_data''
   \<and> store_up connected
   \<and> sensor_data (fst (handle_message connected ''d1'' temp_frame)) =
       [\<lparr>sd_id = 0, sd_device_id = ''d1'', sd_data = [(''temp'', JFloat 215 (- 1))],
         sd_timestamp = 100\<rparr>]
   \<and> outbox (fst (handle_message connected ''d1'' temp_frame)) =
       [(3, JObj [(''type'', JStr ''device_status''), (''device_id'', JStr ''d1''),
                  (''status'', JStr ''online'')]),
        (3, JObj [(''type'', JStr ''sensor_data''), (''device_id'', JStr ''d1''),
                  (''data'', JObj [(''temp'', JFloat 215 (- 1))])])]
   \<and> snd (handle_message connected ''d1'' temp_frame) = Inr ()
   \<and> \<not> store_up store_down
   \<and> snd (handle_message store_down ''d1'' temp_frame) = Inl StoreError
   \<and> outbox (fst (handle_message store_down ''d1'' temp_frame)) = outbox store_down"
proof -
  let ?m = "[(''type'', JStr ''sensor_data''), (''data'', JObj [(''temp'', JFloat 215 (- 1))])]"
  have a: "py_get ?m ''type'' = JStr ''sensor_data''" by (simp add: py_get_def)
  have b: "py_get_default ?m ''data'' (JObj []) = JObj [(''temp'', JFloat 215 (- 1))]"
    by (simp add: py_get_default_def)
  have c: "store_up connected" "\<not> store_up store_down"
    by (simp_all add: store_down_def connected_eq demo_def)
  have d: "temp_frame = JObj ?m" by (simp add: temp_frame_def)
  from C7_sensor_data_persist_then_broadcast [OF a b, of connected "''d1''"] c
  have "handle_message connected ''d1'' temp_frame =
        broadcast_to_users
          (connected\<lparr>next_uuid := Suc (next_uuid connected),
             sensor_data := sensor_data connected @
               [\<lparr>sd_id = next_uuid connected, sd_device_id = ''d1'',
                 sd_data = [(''temp'', JFloat 215 (- 1))], sd_timestamp = now connected\<rparr>]\<rparr>)
          (JObj [(''type'', JStr ''sensor_data''), (''device_id'', JStr ''d1''),
                 (''data'', JObj [(''temp'', JFloat 215 (- 1))])])"
    by (simp add: d)
  then have 1: "sensor_data (fst (handle_message connected ''d1'' temp_frame)) =
       [\<lparr>sd_id = 0, sd_device_id = ''d1'', sd_data = [(''temp'', JFloat 215 (- 1))],
         sd_timestamp = 100\<rparr>]"
    and 2: "outbox (fst (handle_message connected ''d1'' temp_frame)) =
       [(3, JObj [(''type'', JStr ''device_status''), (''device_id'', JStr ''d1''),
                  (''status'', JStr ''online'')]),
        (3, JObj [(''type'', JStr ''sensor_data''), (''device_id'', JStr ''d1''),
                  (''data'', JObj [(''temp'', JFloat 215 (- 1))])])]"
    and 3: "snd (handle_message connected ''d1'' temp_frame) = Inr ()"
    by (simp_all add: connected_eq demo_def broadcast_to_users_def send_json_def dalist_eval
          device_status_msg_def)
  from C7_sensor_data_persist_then_broadcast [OF a b, of store_down "''d1''" "[]"] c
  have 4: "snd (handle_message store_down ''d1'' temp_frame) = Inl StoreError"
    and 5: "outbox (fst (handle_message store_down ''d1'' temp_frame)) = outbox store_down"
    by (simp_all add: d)
  from a c 1 2 3 4 5 show ?thesis by simp
qed

lemma sensor_data_payload_not_an_object:
  "py_get m ''type'' = JStr ''sensor_data'' \<Longrightarrow>
   \<forall>p. py_get_default m ''data'' (JObj []) \<noteq> JObj p \<Longrightarrow>
   handle_message s d (JObj m) = (s\<lparr>next_uuid := Suc (next_uuid s)\<rparr>, Inl ValidationError)"
  by (cases "py_get_default m ''data'' (JObj [])")
     (simp_all add: handle_message_def handle_sensor_data_def Let_def)

text \<open>
  Claim C8, as stated, fails: with a healthy dashboard registered and the store down, a
  report with status \<^verbatim>\<open>success\<close> does not update the stored version and ends the
  loop with the store's error before anything is sent to the dashboard, so the event is
  not broadcast unconditionally.
\<close>

theorem C8_store_failure_counterexample:
  "DAList.lookup (active_connections store_down) ''alice'' = Some 3
   \<and> send_fault store_down 3 = None
   \<and> snd (message_loop store_down ''d1'' [Text (Some fw_frame)]) = Raised StoreError
   \<and> outbox (fst (message_loop store_down ''d1'' [Text (Some fw_frame)])) = outbox store_down
   \<and> map_option firmware_version
        (devices (fst (message_loop store_down ''d1'' [Text (Some fw_frame)])) ''d1'')
       = Some (JStr ''1.0.0'')"
  by (simp add: store_down_def connected_eq demo_def boiler_def fw_frame_def code_eval dalist_eval)

text \<open>
  Claim C8, amended: for a frame of type \<^verbatim>\<open>firmware_update_status\<close>, when the
  reported status is not \<^verbatim>\<open>success\<close> the stored \<^verbatim>\<open>firmware_version\<close> is left
  alone and the event \<^verbatim>\<open>{type: firmware_update_status, device_id, status, version}\<close>
  is broadcast to the dashboards, whatever the state of the store. When the status is
  \<^verbatim>\<open>success\<close> and the store performs the update, the stored version of the device
  becomes the reported version and the same event is then broadcast. When the status is
  \<^verbatim>\<open>success\<close> and the update fails, nothing changes, no broadcast is attempted and
  the failure leaves the message loop. A broadcast reaches every dashboard socket up to
  the first one whose send fails.
\<close>

theorem C8_firmware_status_update_and_broadcast:
  "py_get m ''type'' = JStr ''firmware_update_status'' \<Longrightarrow>
   (py_get m ''status'' \<noteq> JStr ''success'' \<longrightarrow>
      handle_message s d (JObj m) =
        broadcast_to_users s
          (JObj [(''type'', JStr ''firmware_update_status''), (''device_id'', JStr d),
                 (''status'', py_get m ''status''), (''version'', py_get m ''version'')])
      \<and> devices (fst (handle_message s d (JObj m))) = devices s
      \<and> outbox (fst (handle_message s d (JObj m))) =
          outbox s @
            map (\<lambda>w. (w, JObj [(''type'', JStr ''firmware_update_status''),
                              (''device_id'', JStr d), (''status'', py_get m ''status''),
                              (''version'', py_get m ''version'')]))
              (takeWhile (\<lambda>w. send_fault s w = None)
                 (map snd (DAList.impl_of (active_connections s)))))
   \<and> (py_get m ''status'' = JStr ''success'' \<and> store_up s \<longrightarrow>
      handle_message s d (JObj m) =
        broadcast_to_users
          (s\<lparr>devices := (case devices s d of None \<Rightarrow> devices s
               | Some r \<Rightarrow> (devices s)(d \<mapsto> r\<lparr>firmware_version := py_get m ''version''\<rparr>))\<rparr>)
          (JObj [(''type'', JStr ''firmware_update_status''), (''device_id'', JStr d),
                 (''status'', JStr ''success''), (''version'', py_get m ''version'')])
      \<and> devices (fst (handle_message s d (JObj m))) =
          (case devices s d of None \<Rightarrow> devices s
             | Some r \<Rightarrow> (devices s)(d \<mapsto> r\<lparr>firmware_version := py_get m ''version''\<rparr>))
      \<and> outbox (fst (handle_message s d (JObj m))) =
          outbox s @
            map (\<lambda>w. (w, JObj [(''type'', JStr ''firmware_update_status''),
                              (''device_id'', JStr d), (''status'', JStr ''success''),
                              (''version'', py_get m ''version'')]))
              (takeWhile (\<lambda>w. send_fault s w = None)
                 (map snd (DAList.impl_of (active_connections s)))))
   \<and> (py_get m ''status'' = JStr ''success'' \<and> \<not> store_up s \<longrightarrow>
      handle_message s d (JObj m) = (s, Inl StoreError)
      \<and> snd (message_loop s d (Text (Some (JObj m)) # evs)) = Raised StoreError)"
  by (cases "devices s d")
     (simp_all add: loop_body_def handle_message_def handle_firmware_status_def update_one_def
        firmware_status_msg_def broadcast_fst reached_def)

theorem C8_firmware_status_witness:
  "py_get [(''type'', JStr ''firmware_update_status''), (''status'', JStr ''success''),
          (''version'', JStr ''1.1.0'')] ''type'' = JStr ''firmware_update_status''
   \<and> store_up connected
   \<and> map_option firmware_version (devices (fst (handle_message connected ''d1'' fw_frame)) ''d1'')
       = Some (JStr ''1.1.0'')
   \<and> outbox (fst (handle_message connected ''d1'' fw_frame)) =
       [(3, JObj [(''type'', JStr ''device_status''), (''device_id'', JStr ''d1''),
                  (''status'', JStr ''online'')]),
        (3, JObj [(''type'', JStr ''firmware_update_status''), (''device_id'', JStr ''d1''),
                  (''status'', JStr ''success''), (''version'', JStr ''1.1.0'')])]
   \<and> map_option firmware_version
        (devices (fst (handle_message store_down ''d1'' fw_failed_frame)) ''d1'')
       = Some (JStr ''1.0.0'')
   \<and> outbox (fst (handle_message store_down ''d1'' fw_failed_frame)) =
       [(3, JObj [(''type'', JStr ''device_status''), (''device_id'', JStr ''d1''),
                  (''status'', JStr ''online'')]),
        (3, JObj [(''type'', JStr ''firmware_update_status''), (''device_id'', JStr ''d1''),
                  (''status'', JStr ''failed''), (''version'', JStr ''1.1.0'')])]
   \<and> \<not> store_up store_down
   \<and> handle_message store_down ''d1'' fw_frame = (store_down, Inl StoreError)"
proof -
  let ?ok = "[(''type'', JStr ''firmware_update_status''), (''status'', JStr ''success''),
             (''version'', JStr ''1.1.0'')]"
  let ?ko = "[(''type'', JStr ''firmware_update_status''), (''status'', JStr ''failed''),
             (''version'', JStr ''1.1.0'')]"
  have a: "store_up connected" "\<not> store_up store_down"
    by (simp_all add: store_down_def connected_eq demo_def)
  have b: "py_get ?ok ''type'' = JStr ''firmware_update_status''"
    and c: "py_get ?ko ''type'' = JStr ''firmware_update_status''"
    by (simp_all add: py_get_def)
  have d: "fw_frame = JObj ?ok" "fw_failed_frame = JObj ?ko"
    by (simp_all add: fw_frame_def fw_failed_frame_def)
  have e: "py_get ?ok ''status'' = JStr ''success''" "py_get ?ko ''status'' \<noteq> JStr ''success''"
    by (simp_all add: py_get_def)
  from C8_firmware_status_update_and_broadcast [OF b, of connected "''d1''"] a e
  have 1: "map_option firmware_version (devices (fst (handle_message connected ''d1'' fw_frame)) ''d1'')
       = Some (JStr ''1.1.0'')"
    and 2: "outbox (fst (handle_message connected ''d1'' fw_frame)) =
       [(3, JObj [(''type'', JStr ''device_status''), (''device_id'', JStr ''d1''),
                  (''status'', JStr ''online'')]),
        (3, JObj [(''type'', JStr ''firmware_update_status''), (''device_id'', JStr ''d1''),
                  (''status'', JStr ''success''), (''version'', JStr ''1.1.0'')])]"
    by (simp_all add: d py_get_def connected_eq demo_def boiler_def dalist_eval
          device_status_msg_def broadcast_to_users_def send_json_def)
  from C8_firmware_status_update_and_broadcast [OF c, of store_down "''d1''"] e
  have 3: "map_option firmware_version
        (devices (fst (handle_message store_down ''d1'' fw_failed_frame)) ''d1'')
       = Some (JStr ''1.0.0'')"
    and 4: "outbox (fst (handle_message store_down ''d1'' fw_failed_frame)) =
       [(3, JObj [(''type'', JStr ''device_status''), (''device_id'', JStr ''d1''),
                  (''status'', JStr ''online'')]),
        (3, JObj [(''type'', JStr ''firmware_update_status''), (''device_id'', JStr ''d1''),
                  (''status'', JStr ''failed''), (''version'', JStr ''1.1.0'')])]"
    by (simp_all add: d py_get_def store_down_def connected_eq demo_def boiler_def dalist_eval
          device_status_msg_def broadcast_to_users_def send_json_def)
  from C8_firmware_status_update_and_broadcast [OF b, of store_down "''d1''" "[]"] a e
  have 5: "handle_message store_down ''d1'' fw_frame = (store_down, Inl StoreError)"
    by (simp add: d)
  from a b 1 2 3 4 5 show ?thesis by simp
qed

subsection \<open>The end of a device session\<close>

lemma close_runs_disconnect_path: "message_loop s d (Close # evs) = on_disconnect s d"
  by (simp add: loop_body_def)

text \<open>
  Claim C2 says that the disconnect path (registry entry removed, status set to
  offline, offline event broadcast) runs exactly once however the session ends. The
  handler runs it for \<^verbatim>\<open>WebSocketDisconnect\<close> only. A device that connects and sends
  one frame that is not JSON ends its task with the decoding error: its handle stays in
  the registry, its document stays online, and no offline event is sent. The same
  session ended by a close runs the path.
\<close>

theorem C2_decode_error_skips_disconnect_path:
  "snd (websocket_device demo 7 ''d1'' ''tok1'' [Text None]) = Raised JSONDecodeError
   \<and> DAList.lookup (device_connections (fst (websocket_device demo 7 ''d1'' ''tok1'' [Text None])))
        ''d1'' = Some 7
   \<and> map_option status (devices (fst (websocket_device demo 7 ''d1'' ''tok1'' [Text None])) ''d1'')
        = Some ''online''
   \<and> outbox (fst (websocket_device demo 7 ''d1'' ''tok1'' [Text None]))
        = [(3, device_status_msg ''d1'' ''online'')]
   \<and> snd (websocket_device demo 7 ''d1'' ''tok1'' [Close]) = Returned
   \<and> DAList.lookup (device_connections (fst (websocket_device demo 7 ''d1'' ''tok1'' [Close])))
        ''d1'' = None
   \<and> map_option status (devices (fst (websocket_device demo 7 ''d1'' ''tok1'' [Close])) ''d1'')
        = Some ''offline''
   \<and> outbox (fst (websocket_device demo 7 ''d1'' ''tok1'' [Close]))
        = [(3, device_status_msg ''d1'' ''online''), (3, device_status_msg ''d1'' ''offline'')]"
  by (simp add: demo_def boiler_def code_eval dalist_eval)

subsection \<open>Reconnection\<close>

lemma one_entry:
  "distinct (map fst xs) \<Longrightarrow> map_of xs k = Some v \<Longrightarrow>
   length (filter (\<lambda>kv. fst kv = k) xs) = 1"
proof (induction xs)
  case Nil
  then show ?case by simp
next
  case (Cons x xs)
  show ?case
  proof (cases "fst x = k")
    case True
    with Cons.prems have "k \<notin> fst ` set xs" by auto
    then have "filter (\<lambda>kv. fst kv = k) xs = []" by (auto simp: filter_empty_conv)
    with True show ?thesis by simp
  next
    case False
    with Cons show ?thesis by (cases x) auto
  qed
qed

lemma entries_for_update: "entries_for d (DAList.update d w reg) = 1"
  unfolding entries_for_def
  by (rule one_entry [where v = w]) (simp_all add: DAList.lookup.rep_eq [symmetric])

lemma websocket_device_admitted_fst:
  "store_up s \<Longrightarrow> devices s d = Some r \<Longrightarrow> auth_token r = tok \<Longrightarrow>
   fst (websocket_device s w d tok []) =
     fst (broadcast_to_users
            (s\<lparr>accepted := accepted s @ [w],
               device_connections := DAList.update d w (device_connections s),
               devices := (devices s)(d \<mapsto> r\<lparr>status := ''online'', last_seen := Some (now s)\<rparr>)\<rparr>)
            (device_status_msg d ''online''))"
  by (auto simp: websocket_device_def find_one_token_def connect_def update_one_def
        split: prod.splits sum.splits)

text \<open>
  Claim C6, as stated, fails in its consequence: the device reconnects on socket 8
  while the task of socket 7 is still waiting; when that task then sees its connection
  close, its cleanup deletes the entry of the device id, which by now holds socket 8. The
  new session is running, yet the registry has no entry for the device and its document
  says offline.
\<close>

theorem C6_stale_cleanup_counterexample:
  "snd (websocket_device connected 8 ''d1'' ''tok1'' []) = Running
   \<and> DAList.lookup (device_connections reconnected) ''d1'' = Some 8
   \<and> snd (message_loop reconnected ''d1'' [Close]) = Returned
   \<and> DAList.lookup (device_connections stale_cleanup) ''d1'' = None
   \<and> entries_for ''d1'' (device_connections stale_cleanup) = 0
   \<and> map_option status (devices stale_cleanup ''d1'') = Some ''offline''"
  by (simp add: stale_cleanup_def reconnected_eq connected_eq demo_def boiler_def code_eval
        dalist_eval entries_for_def)

text \<open>
  Claim C6, amended: \<^verbatim>\<open>connect\<close> stores the handle under the identity and replaces
  any handle stored before (last writer wins); consequently, right after a device has
  reconnected with the same device id and before the earlier connection's cleanup has
  run, the registry holds exactly one entry for that device id, it is the new handle, and
  the document of the device says online.
\<close>

theorem C6_register_last_writer_wins:
  "DAList.lookup (device_connections (connect s w d ''device'')) d = Some w
   \<and> entries_for d (device_connections (connect s w d ''device'')) = 1
   \<and> (store_up s \<and> devices s d = Some r \<and> auth_token r = tok \<longrightarrow>
        DAList.lookup (device_connections (fst (websocket_device s w d tok []))) d = Some w
        \<and> entries_for d (device_connections (fst (websocket_device s w d tok []))) = 1
        \<and> online (fst (websocket_device s w d tok [])) d)"
  by (simp add: connect_def entries_for_update websocket_device_admitted_fst broadcast_fst
        online_def)

theorem C6_register_witness:
  "store_up connected
   \<and> map_option auth_token (devices connected ''d1'') = Some ''tok1''
   \<and> DAList.lookup (device_connections connected) ''d1'' = Some 7
   \<and> DAList.lookup (device_connections (fst (websocket_device connected 8 ''d1'' ''tok1'' [])))
        ''d1'' = Some 8
   \<and> entries_for ''d1'' (device_connections (fst (websocket_device connected 8 ''d1'' ''tok1'' [])))
        = 1
   \<and> online (fst (websocket_device connected 8 ''d1'' ''tok1'' [])) ''d1''"
proof -
  have a: "store_up connected
      \<and> devices connected ''d1'' = Some (boiler\<lparr>status := ''online'', last_seen := Some 100\<rparr>)
      \<and> auth_token (boiler\<lparr>status := ''online'', last_seen := Some 100\<rparr>) = ''tok1''"
    by (simp add: connected_eq demo_def boiler_def)
  have b: "DAList.lookup (device_connections connected) ''d1'' = Some 7"
    by (simp add: connected_eq)
  from a C6_register_last_writer_wins [where s = connected and w = 8 and d = "''d1''" and tok = "''tok1''"
      and r = "boiler\<lparr>status := ''online'', last_seen := Some 100\<rparr>"]
  have "DAList.lookup (device_connections (fst (websocket_device connected 8 ''d1'' ''tok1'' [])))
        ''d1'' = Some 8
   \<and> entries_for ''d1'' (device_connections (fst (websocket_device connected 8 ''d1'' ''tok1'' [])))
        = 1
   \<and> online (fst (websocket_device connected 8 ''d1'' ''tok1'' [])) ''d1''"
    by blast
  with a b show ?thesis by simp
qed

subsection \<open>Registry and liveness record stay together\<close>

lemma broadcast_keeps:
  "device_connections (fst (broadcast_to_users s m)) = device_connections s"
  "devices (fst (broadcast_to_users s m)) = devices s"
  "store_up (fst (broadcast_to_users s m)) = store_up s"
  by (simp_all add: broadcast_fst)

lemma online_outbox [simp]: "online (s\<lparr>outbox := ob\<rparr>) d = online s d"
  by (simp add: online_def)





















end
